theory Spec2Isabelle
  imports Main "HOL-Library.Word"
begin

section \<open>Data model\<close>

text \<open>
  Modelled from the spec: the types \<open>osin.Client\<close> (an interface),
  \<open>osin.DefaultClient\<close>, \<open>osin.AuthorizeData\<close> and \<open>osin.AccessData\<close>, which
  storage.go persists and whose declarations are in the osin package, not in storage.go.
  The fields are the ones the data model names: identity and token fields as strings,
  \<open>ExpiresIn\<close> as Go's int32, and the fields the store only carries (scope, redirect
  URI, state, creation time, user data). A field of type \<open>interface{}\<close> is either
  nil or an opaque value.
\<close>

datatype user_data = Absent | Opaque string

record default_client =
  Id :: string
  Secret :: string
  RedirectUri :: string
  UserData :: user_data

text \<open>
  A value of the interface \<open>osin.Client\<close> is a value of some concrete type that has
  the four getters. \<open>DefaultClient d\<close> is a \<open>*osin.DefaultClient\<close>;
  \<open>OtherClient tn i s r u\<close> is a value of another concrete type named \<open>tn\<close>,
  whose getters return \<open>i\<close>, \<open>s\<close>, \<open>r\<close> and \<open>u\<close>.
\<close>

datatype client =
    DefaultClient default_client
  | OtherClient string string string string user_data

fun GetId :: "client \<Rightarrow> string" where
  "GetId (DefaultClient d) = Id d"
| "GetId (OtherClient tn i s r u) = i"

fun GetSecret :: "client \<Rightarrow> string" where
  "GetSecret (DefaultClient d) = Secret d"
| "GetSecret (OtherClient tn i s r u) = s"

fun GetRedirectUri :: "client \<Rightarrow> string" where
  "GetRedirectUri (DefaultClient d) = default_client.RedirectUri d"
| "GetRedirectUri (OtherClient tn i s r u) = r"

fun GetUserData :: "client \<Rightarrow> user_data" where
  "GetUserData (DefaultClient d) = default_client.UserData d"
| "GetUserData (OtherClient tn i s r u) = u"

text \<open>A field of type \<open>osin.Client\<close> or of pointer type may be nil: \<open>None\<close>.\<close>

record authorize_data =
  Client :: "client option"
  Code :: string
  ExpiresIn :: "32 word"
  Scope :: string
  RedirectUri :: string
  State :: string
  CreatedAt :: int
  UserData :: user_data

record access_data =
  Client :: "client option"
  AuthorizeData :: "authorize_data option"
  AccessToken :: string
  RefreshToken :: string
  ExpiresIn :: "32 word"
  Scope :: string
  RedirectUri :: string
  CreatedAt :: int
  UserData :: user_data

section \<open>Errors\<close>

text \<open>
  Every error storage.go returns is an \<open>errors.Wrap\<close> of a cause, which adds a message
  and keeps the cause (and is nil when the cause is nil). The model keeps the cause:
  a failure of gob's encoder or decoder, \<open>redis.ErrNil\<close> (the reply was nil: the key is
  absent), a failure of the round trip that \<open>conn.Do\<close> reports, the error reply
  \<open>ERR invalid expire time\<close> of the engine (which \<open>conn.Do\<close> returns as its error), the
  error \<open>token is expired\<close> that LoadAuthorize creates, and the run-time panic of a
  method call on a nil interface.
\<close>

datatype error =
  EncodeError | DecodeError | ErrNil | BackendError | InvalidExpire | Expired | NilDereference

section \<open>The codec\<close>

text \<open>
  \<open>encode\<close> and \<open>decode\<close> hand the value to \<open>encoding/gob\<close>, a library outside the
  repository. The codec is therefore a parameter of the model: what the encoder writes for
  a value (\<open>None\<close> when it fails), and what the decoder reads from a byte string into
  a variable of each of the three types that storage.go decodes into.
\<close>

datatype gob_value = VClient client | VAuthorize authorize_data | VAccess access_data

record codec =
  gobEncode :: "gob_value \<Rightarrow> string option"
  gobDecodeClient :: "string \<Rightarrow> default_client option"
  gobDecodeAuthorize :: "string \<Rightarrow> authorize_data option"
  gobDecodeAccess :: "string \<Rightarrow> access_data option"

definition encode :: "codec \<Rightarrow> gob_value \<Rightarrow> error + string" where
  "encode cd v = (case gobEncode cd v of None \<Rightarrow> Inl EncodeError | Some b \<Rightarrow> Inr b)"

definition decodeClient :: "codec \<Rightarrow> string \<Rightarrow> error + default_client" where
  "decodeClient cd b = (case gobDecodeClient cd b of None \<Rightarrow> Inl DecodeError | Some c \<Rightarrow> Inr c)"

definition decodeAuthorize :: "codec \<Rightarrow> string \<Rightarrow> error + authorize_data" where
  "decodeAuthorize cd b =
     (case gobDecodeAuthorize cd b of None \<Rightarrow> Inl DecodeError | Some a \<Rightarrow> Inr a)"

definition decodeAccess :: "codec \<Rightarrow> string \<Rightarrow> error + access_data" where
  "decodeAccess cd b =
     (case gobDecodeAccess cd b of None \<Rightarrow> Inl DecodeError | Some a \<Rightarrow> Inr a)"

text \<open>
  The law a codec is expected to obey: what was encoded from a default client, or from an
  access record, decodes to the same value.
\<close>

definition client_roundtrip :: "codec \<Rightarrow> bool" where
  "client_roundtrip cd \<longleftrightarrow>
     (\<forall>c b. gobEncode cd (VClient (DefaultClient c)) = Some b \<longrightarrow> gobDecodeClient cd b = Some c)"

definition access_roundtrip :: "codec \<Rightarrow> bool" where
  "access_roundtrip cd \<longleftrightarrow>
     (\<forall>a b. gobEncode cd (VAccess a) = Some b \<longrightarrow> gobDecodeAccess cd b = Some a)"

text \<open>
  A codec given by a finite table of values and their byte strings. The decoder matches
  what was written against the type of the variable it fills: only what was written from a
  default client can be read into a \<open>DefaultClient\<close> variable. The bytes written from a
  client of another type carry that type's own fields and do not decode into it.
\<close>

fun rlookup :: "('a \<times> string) list \<Rightarrow> string \<Rightarrow> 'a option" where
  "rlookup [] b = None"
| "rlookup ((v, b') # t) b = (if b' = b then Some v else rlookup t b)"

definition table_codec :: "(gob_value \<times> string) list \<Rightarrow> codec" where
  "table_codec t =
     \<lparr> gobEncode = map_of t,
       gobDecodeClient = (\<lambda>b. case rlookup t b of
           Some (VClient (DefaultClient c)) \<Rightarrow> Some c
         | _ \<Rightarrow> None),
       gobDecodeAuthorize = (\<lambda>b. case rlookup t b of Some (VAuthorize a) \<Rightarrow> Some a | _ \<Rightarrow> None),
       gobDecodeAccess = (\<lambda>b. case rlookup t b of Some (VAccess a) \<Rightarrow> Some a | _ \<Rightarrow> None) \<rparr>"

section \<open>The key-value engine\<close>

text \<open>
  The engine behind the pool: the keys and their values, the expiry that SETEX attached to
  a key, and the outcomes of the coming round trips (\<open>True\<close>: \<open>conn.Do\<close> returns an
  error and the engine is not changed; when the list runs out, every round trip succeeds).
\<close>

record engine =
  kv :: "string \<rightharpoonup> string"
  expiry :: "string \<rightharpoonup> int"
  faults :: "bool list"

definition faulty :: "engine \<Rightarrow> bool" where
  "faulty s = (case faults s of [] \<Rightarrow> False | f # fs \<Rightarrow> f)"

definition advance :: "engine \<Rightarrow> engine" where
  "advance s = s\<lparr>faults := tl (faults s)\<rparr>"

definition Do_GET :: "string \<Rightarrow> engine \<Rightarrow> (error + string option) \<times> engine" where
  "Do_GET k s = (if faulty s then (Inl BackendError, advance s) else (Inr (kv s k), advance s))"

definition Do_SET :: "string \<Rightarrow> string \<Rightarrow> engine \<Rightarrow> (error + unit) \<times> engine" where
  "Do_SET k v s =
     (if faulty s then (Inl BackendError, advance s)
      else (Inr (), advance (s\<lparr>kv := (kv s)(k \<mapsto> v), expiry := (expiry s)(k := None)\<rparr>)))"

text \<open>
  SETEX refuses an expiry that is not positive: the engine replies with the error
  \<open>ERR invalid expire time\<close> and stores nothing.
\<close>

definition Do_SETEX :: "string \<Rightarrow> int \<Rightarrow> string \<Rightarrow> engine \<Rightarrow> (error + unit) \<times> engine" where
  "Do_SETEX k t v s =
     (if faulty s then (Inl BackendError, advance s)
      else if t \<le> 0 then (Inl InvalidExpire, advance s)
      else (Inr (), advance (s\<lparr>kv := (kv s)(k \<mapsto> v), expiry := (expiry s)(k \<mapsto> t)\<rparr>)))"

text \<open>DEL replies with the number of keys it removed; an absent key is not an error.\<close>

definition Do_DEL :: "string \<Rightarrow> engine \<Rightarrow> (error + nat) \<times> engine" where
  "Do_DEL k s =
     (if faulty s then (Inl BackendError, advance s)
      else (Inr (if kv s k = None then 0 else 1),
            advance (s\<lparr>kv := (kv s)(k := None), expiry := (expiry s)(k := None)\<rparr>)))"

text \<open>
  \<open>redis.String\<close> and \<open>redis.Bytes\<close> pass an error on, turn a nil reply into
  \<open>redis.ErrNil\<close>, and return the bytes of a bulk reply.
\<close>

definition redis_String :: "(error + string option) \<Rightarrow> error + string" where
  "redis_String r =
     (case r of Inl e \<Rightarrow> Inl e | Inr None \<Rightarrow> Inl ErrNil | Inr (Some b) \<Rightarrow> Inr b)"

definition redis_Bytes :: "(error + string option) \<Rightarrow> error + string" where
  "redis_Bytes r =
     (case r of Inl e \<Rightarrow> Inl e | Inr None \<Rightarrow> Inl ErrNil | Inr (Some b) \<Rightarrow> Inr b)"

section \<open>Storage\<close>

record storage =
  keyPrefix :: string

definition makeKey :: "storage \<Rightarrow> string \<Rightarrow> string \<Rightarrow> string" where
  "makeKey st namespace ident = keyPrefix st @ '':'' @ namespace @ '':'' @ ident"

text \<open>The namespaces storage.go passes to \<open>makeKey\<close>.\<close>

definition namespaces :: "string set" where
  "namespaces = {''client'', ''auth'', ''access'', ''access_token'', ''refresh_token''}"

section \<open>Client registry\<close>

definition CreateClient :: "codec \<Rightarrow> storage \<Rightarrow> client \<Rightarrow> engine \<Rightarrow> (error + unit) \<times> engine" where
  "CreateClient cd st c s =
     (case encode cd (VClient c) of
        Inl e \<Rightarrow> (Inl e, s)
      | Inr payload \<Rightarrow>
          (case Do_SET (makeKey st ''client'' (GetId c)) payload s of
             (Inl e, s') \<Rightarrow> (Inl e, s')
           | (Inr u, s') \<Rightarrow> (Inr (), s')))"

text \<open>GetClient decodes into a variable of type \<open>osin.DefaultClient\<close> and returns its address.\<close>

definition GetClient :: "codec \<Rightarrow> storage \<Rightarrow> string \<Rightarrow> engine \<Rightarrow> (error + client) \<times> engine" where
  "GetClient cd st ident s =
     (case Do_GET (makeKey st ''client'' ident) s of (r, s') \<Rightarrow>
        (case redis_Bytes r of
           Inl e \<Rightarrow> (Inl e, s')
         | Inr clientGob \<Rightarrow>
             (case decodeClient cd clientGob of
                Inl e \<Rightarrow> (Inl e, s')
              | Inr c \<Rightarrow> (Inr (DefaultClient c), s'))))"


definition DeleteClient :: "storage \<Rightarrow> client \<Rightarrow> engine \<Rightarrow> (error + unit) \<times> engine" where
  "DeleteClient st c s =
     (case Do_DEL (makeKey st ''client'' (GetId c)) s of
        (Inl e, s') \<Rightarrow> (Inl e, s')
      | (Inr n, s') \<Rightarrow> (Inr (), s'))"

section \<open>Authorization codes\<close>

definition SaveAuthorize ::
  "codec \<Rightarrow> storage \<Rightarrow> authorize_data \<Rightarrow> engine \<Rightarrow> (error + unit) \<times> engine" where
  "SaveAuthorize cd st data s =
     (case encode cd (VAuthorize data) of
        Inl e \<Rightarrow> (Inl e, s)
      | Inr payload \<Rightarrow>
          (case Do_SETEX (makeKey st ''auth'' (Code data)) (sint (authorize_data.ExpiresIn data))
                  payload s of
             (Inl e, s') \<Rightarrow> (Inl e, s')
           | (Inr u, s') \<Rightarrow> (Inr (), s')))"

definition LoadAuthorize ::
  "codec \<Rightarrow> storage \<Rightarrow> string \<Rightarrow> engine \<Rightarrow> (error + authorize_data) \<times> engine" where
  "LoadAuthorize cd st code s =
     (case Do_GET (makeKey st ''auth'' code) s of
        (Inl e, s') \<Rightarrow> (Inl e, s')
      | (Inr None, s') \<Rightarrow> (Inl Expired, s')
      | (Inr (Some authGob), s') \<Rightarrow>
          (case decodeAuthorize cd authGob of
             Inl e \<Rightarrow> (Inl e, s')
           | Inr auth \<Rightarrow> (Inr auth, s')))"

definition RemoveAuthorize :: "storage \<Rightarrow> string \<Rightarrow> engine \<Rightarrow> (error + unit) \<times> engine" where
  "RemoveAuthorize st code s =
     (case Do_DEL (makeKey st ''auth'' code) s of
        (Inl e, s') \<Rightarrow> (Inl e, s')
      | (Inr n, s') \<Rightarrow> (Inr (), s'))"

section \<open>Access and refresh tokens\<close>

text \<open>
  \<open>accessID\<close> is the string that \<open>uuid.NewV4().String()\<close> returns in this call: the
  random choice is an argument of the model.
\<close>

definition SaveAccess ::
  "codec \<Rightarrow> storage \<Rightarrow> string \<Rightarrow> access_data \<Rightarrow> engine \<Rightarrow> (error + unit) \<times> engine" where
  "SaveAccess cd st accessID data s =
     (case encode cd (VAccess data) of
        Inl e \<Rightarrow> (Inl e, s)
      | Inr payload \<Rightarrow>
          (case Do_SET (makeKey st ''access'' accessID) payload s of
             (Inl e, s1) \<Rightarrow> (Inl e, s1)
           | (Inr u, s1) \<Rightarrow>
               (case Do_SET (makeKey st ''access_token'' (AccessToken data)) accessID s1 of
                  (Inl e, s2) \<Rightarrow> (Inl e, s2)
                | (Inr u, s2) \<Rightarrow>
                    (case Do_SET (makeKey st ''refresh_token'' (RefreshToken data)) accessID s2 of
                       (Inl e, s3) \<Rightarrow> (Inl e, s3)
                     | (Inr u, s3) \<Rightarrow> (Inr (), s3)))))"

definition loadAccessImpl ::
  "codec \<Rightarrow> storage \<Rightarrow> string \<Rightarrow> engine \<Rightarrow> (error + access_data) \<times> engine" where
  "loadAccessImpl cd st key s =
     (case Do_GET key s of (r, s1) \<Rightarrow>
        (case redis_String r of
           Inl e \<Rightarrow> (Inl e, s1)
         | Inr accessID \<Rightarrow>
             (case Do_GET (makeKey st ''access'' accessID) s1 of (r2, s2) \<Rightarrow>
                (case redis_Bytes r2 of
                   Inl e \<Rightarrow> (Inl e, s2)
                 | Inr accessGob \<Rightarrow>
                     (case decodeAccess cd accessGob of
                        Inl e \<Rightarrow> (Inl e, s2)
                      | Inr access \<Rightarrow> (Inr access, s2))))))"

text \<open>
  \<open>access.Client.GetId()\<close> on a nil \<open>Client\<close> is a nil dereference. The second client
  is looked up only when both \<open>access.AuthorizeData\<close> and its \<open>Client\<close> are not nil.
\<close>

definition refreshAccessClients ::
  "codec \<Rightarrow> storage \<Rightarrow> access_data \<Rightarrow> engine \<Rightarrow> (error + access_data) \<times> engine" where
  "refreshAccessClients cd st access s =
     (case access_data.Client access of
        None \<Rightarrow> (Inl NilDereference, s)
      | Some c \<Rightarrow>
          (case GetClient cd st (GetId c) s of
             (Inl e, s1) \<Rightarrow> (Inl e, s1)
           | (Inr c', s1) \<Rightarrow>
               (let access1 = access\<lparr>access_data.Client := Some c'\<rparr> in
                case AuthorizeData access1 of
                  None \<Rightarrow> (Inr access1, s1)
                | Some ad \<Rightarrow>
                    (case authorize_data.Client ad of
                       None \<Rightarrow> (Inr access1, s1)
                     | Some c2 \<Rightarrow>
                         (case GetClient cd st (GetId c2) s1 of
                            (Inl e, s2) \<Rightarrow> (Inl e, s2)
                          | (Inr c2', s2) \<Rightarrow>
                              (Inr (access1\<lparr>AuthorizeData :=
                                      Some (ad\<lparr>authorize_data.Client := Some c2'\<rparr>)\<rparr>), s2))))))"

definition loadAndRefreshAccess ::
  "codec \<Rightarrow> storage \<Rightarrow> string \<Rightarrow> engine \<Rightarrow> (error + access_data) \<times> engine" where
  "loadAndRefreshAccess cd st key s =
     (case loadAccessImpl cd st key s of
        (Inl e, s1) \<Rightarrow> (Inl e, s1)
      | (Inr access, s1) \<Rightarrow> refreshAccessClients cd st access s1)"

definition removeAccessImpl ::
  "codec \<Rightarrow> storage \<Rightarrow> string \<Rightarrow> engine \<Rightarrow> (error + unit) \<times> engine" where
  "removeAccessImpl cd st key s =
     (case Do_GET key s of (r, s1) \<Rightarrow>
        (case redis_String r of
           Inl e \<Rightarrow> (Inl e, s1)
         | Inr accessID \<Rightarrow>
             (case loadAccessImpl cd st key s1 of
                (Inl e, s2) \<Rightarrow> (Inl e, s2)
              | (Inr access, s2) \<Rightarrow>
                  (case Do_DEL (makeKey st ''access'' accessID) s2 of
                     (Inl e, s3) \<Rightarrow> (Inl e, s3)
                   | (Inr n, s3) \<Rightarrow>
                       (case Do_DEL (makeKey st ''access_token'' (AccessToken access)) s3 of
                          (Inl e, s4) \<Rightarrow> (Inl e, s4)
                        | (Inr n, s4) \<Rightarrow>
                            (case Do_DEL (makeKey st ''refresh_token'' (RefreshToken access)) s4 of
                               (Inl e, s5) \<Rightarrow> (Inl e, s5)
                             | (Inr n, s5) \<Rightarrow> (Inr (), s5)))))))"

definition LoadAccess ::
  "codec \<Rightarrow> storage \<Rightarrow> string \<Rightarrow> engine \<Rightarrow> (error + access_data) \<times> engine" where
  "LoadAccess cd st token s = loadAndRefreshAccess cd st (makeKey st ''access_token'' token) s"

definition RemoveAccess :: "codec \<Rightarrow> storage \<Rightarrow> string \<Rightarrow> engine \<Rightarrow> (error + unit) \<times> engine" where
  "RemoveAccess cd st token s = removeAccessImpl cd st (makeKey st ''access_token'' token) s"

definition LoadRefresh ::
  "codec \<Rightarrow> storage \<Rightarrow> string \<Rightarrow> engine \<Rightarrow> (error + access_data) \<times> engine" where
  "LoadRefresh cd st token s = loadAndRefreshAccess cd st (makeKey st ''refresh_token'' token) s"

definition RemoveRefresh :: "codec \<Rightarrow> storage \<Rightarrow> string \<Rightarrow> engine \<Rightarrow> (error + unit) \<times> engine" where
  "RemoveRefresh cd st token s = removeAccessImpl cd st (makeKey st ''refresh_token'' token) s"

section \<open>Engines that do not fail\<close>

definition reliable :: "engine \<Rightarrow> bool" where
  "reliable s \<longleftrightarrow> True \<notin> set (faults s)"

section \<open>Example values\<close>

definition store0 :: storage where
  "store0 = \<lparr>keyPrefix = ''p''\<rparr>"

definition engine0 :: engine where
  "engine0 = \<lparr>kv = Map.empty, expiry = Map.empty, faults = []\<rparr>"

definition client1 :: default_client where
  "client1 = \<lparr>Id = ''c1'', Secret = ''s1'', RedirectUri = ''http://a'', UserData = Absent\<rparr>"

definition client1' :: default_client where
  "client1' = \<lparr>Id = ''c1'', Secret = ''s2'', RedirectUri = ''http://b'', UserData = Absent\<rparr>"

definition other1 :: client where
  "other1 = OtherClient ''MyClient'' ''c9'' ''s9'' ''http://z'' Absent"

definition auth1 :: authorize_data where
  "auth1 = \<lparr>authorize_data.Client = Some (DefaultClient client1), Code = ''code1'',
      authorize_data.ExpiresIn = 60, authorize_data.Scope = ''read'',
      authorize_data.RedirectUri = ''http://a'', State = ''xyz'',
      authorize_data.CreatedAt = 0, authorize_data.UserData = Opaque ''unregistered''\<rparr>"

definition access0 :: access_data where
  "access0 = \<lparr>Client = Some (DefaultClient client1), AuthorizeData = None,
      AccessToken = ''at0'', RefreshToken = [], ExpiresIn = 3600, Scope = ''read'',
      RedirectUri = ''http://a'', CreatedAt = 0, UserData = Absent\<rparr>"

definition auth2 :: authorize_data where
  "auth2 = \<lparr>authorize_data.Client = Some (DefaultClient client1), Code = ''code2'',
      authorize_data.ExpiresIn = 60, authorize_data.Scope = ''read'',
      authorize_data.RedirectUri = ''http://a'', State = ''xyz'',
      authorize_data.CreatedAt = 0, authorize_data.UserData = Absent\<rparr>"

definition access1 :: access_data where
  "access1 = \<lparr>Client = Some (DefaultClient client1), AuthorizeData = Some auth2,
      AccessToken = ''at1'', RefreshToken = ''rt1'', ExpiresIn = 3600, Scope = ''read'',
      RedirectUri = ''http://a'', CreatedAt = 0, UserData = Absent\<rparr>"

text \<open>A codec that can write five values and fails on every other one.\<close>

definition codec0 :: codec where
  "codec0 = table_codec
     [(VClient (DefaultClient client1), ''gob-c1''),
      (VClient (DefaultClient client1'), ''gob-c1b''),
      (VClient other1, ''gob-o1''),
      (VAccess access0, ''gob-a0''),
      (VAccess access1, ''gob-a1'')]"

text \<open>
  Engines reached from the empty one: the client \<open>c1\<close> is registered, then
  \<open>access1\<close> is saved, then the client is updated, or the access record is removed.
\<close>

definition engine1 :: engine where
  "engine1 = snd (CreateClient codec0 store0 (DefaultClient client1) engine0)"

definition engine2 :: engine where
  "engine2 = snd (SaveAccess codec0 store0 ''id1'' access1 engine1)"


definition engine4 :: engine where
  "engine4 = snd (RemoveAccess codec0 store0 ''at1'' engine2)"

section \<open>Hydration, as the design describes it\<close>

text \<open>
  The definitions of this section follow the words of the design, not the code; the
  theorems below compare the code with them. \<open>registry\<close> is the client registry as
  a reader sees it: the client that the bytes under \<open>client:<id>\<close> decode to.
  \<open>hydrate\<close> replaces the record's client by the registry's client of the same id and,
  when an AuthorizeData with a client is embedded, that client too. \<open>strip_clients\<close>
  forgets exactly these two client fields. \<open>same_access_entries\<close> says that an engine
  holds, under the three keys of a saved record, what another engine holds.
\<close>

definition registry :: "codec \<Rightarrow> storage \<Rightarrow> engine \<Rightarrow> string \<Rightarrow> client option" where
  "registry cd st s ident =
     (case kv s (makeKey st ''client'' ident) of
        None \<Rightarrow> None
      | Some b \<Rightarrow> (case gobDecodeClient cd b of None \<Rightarrow> None | Some c \<Rightarrow> Some (DefaultClient c)))"

definition authorize_client_present ::
  "codec \<Rightarrow> storage \<Rightarrow> engine \<Rightarrow> access_data \<Rightarrow> bool" where
  "authorize_client_present cd st s a =
     (case AuthorizeData a of
        None \<Rightarrow> True
      | Some ad \<Rightarrow>
          (case authorize_data.Client ad of
             None \<Rightarrow> True
           | Some c2 \<Rightarrow> registry cd st s (GetId c2) \<noteq> None))"

definition clients_present :: "codec \<Rightarrow> storage \<Rightarrow> engine \<Rightarrow> access_data \<Rightarrow> bool" where
  "clients_present cd st s a =
     (case access_data.Client a of
        None \<Rightarrow> False
      | Some c \<Rightarrow> registry cd st s (GetId c) \<noteq> None \<and> authorize_client_present cd st s a)"




section \<open>Keys\<close>

lemma colon_split_unique:
  "c \<notin> set xs \<Longrightarrow> c \<notin> set ys \<Longrightarrow> xs @ c # a = ys @ c # b \<Longrightarrow> xs = ys \<and> a = b"
proof (induction xs arbitrary: ys)
  case Nil
  then show ?case by (cases ys) auto
next
  case (Cons x xs)
  then show ?case by (cases ys) auto
qed

lemma makeKey_inject:
  assumes "CHR '':'' \<notin> set n1" and "CHR '':'' \<notin> set n2"
    and "makeKey st n1 i1 = makeKey st n2 i2"
  shows "n1 = n2 \<and> i1 = i2"
proof -
  from assms(3) have "n1 @ CHR '':'' # i1 = n2 @ CHR '':'' # i2"
    by (simp add: makeKey_def)
  with assms(1,2) show ?thesis by (rule colon_split_unique)
qed

lemma namespaces_no_colon: "n \<in> namespaces \<Longrightarrow> CHR '':'' \<notin> set n"
  by (auto simp: namespaces_def)

text \<open>
  C5: under one store (one key prefix), two keys built from namespaces that storage.go uses
  and from arbitrary identifiers are equal only if the namespaces are equal and the
  identifiers are equal: distinct (namespace, identifier) pairs never share a key.
\<close>

theorem makeKey_injective:
  "n1 \<in> namespaces \<Longrightarrow> n2 \<in> namespaces \<Longrightarrow> (n1, i1) \<noteq> (n2, i2) \<Longrightarrow>
     makeKey st n1 i1 \<noteq> makeKey st n2 i2"
  using makeKey_inject [of n1 n2 st i1 i2] namespaces_no_colon by auto

theorem makeKey_injective_witness:
  "''access'' \<in> namespaces \<and> ''access_token'' \<in> namespaces \<and>
   (''access'', ''_token:x'') \<noteq> (''access_token'', ''x'') \<and>
   makeKey \<lparr>keyPrefix = ''p''\<rparr> ''access'' ''_token:x''
     \<noteq> makeKey \<lparr>keyPrefix = ''p''\<rparr> ''access_token'' ''x''"
  using makeKey_injective [of "''access''" "''access_token''" "''_token:x''" "''x''"
      "\<lparr>keyPrefix = ''p''\<rparr>"]
  by (simp add: namespaces_def)

lemma makeKey_eq:
  "CHR '':'' \<notin> set n1 \<Longrightarrow> CHR '':'' \<notin> set n2 \<Longrightarrow>
     (makeKey st n1 i1 = makeKey st n2 i2) = (n1 = n2 \<and> i1 = i2)"
  using makeKey_inject [of n1 n2 st i1 i2] by auto

section \<open>Round trips to the engine\<close>

lemma kv_advance [simp]: "kv (advance s) = kv s"
  by (simp add: advance_def)

lemma expiry_advance [simp]: "expiry (advance s) = expiry s"
  by (simp add: advance_def)

lemma faults_advance [simp]: "faults (advance s) = tl (faults s)"
  by (simp add: advance_def)

lemma reliable_not_faulty: "reliable s \<Longrightarrow> \<not> faulty s"
  by (cases "faults s") (auto simp: reliable_def faulty_def)

lemma reliable_advance: "reliable s \<Longrightarrow> reliable (advance s)"
  by (cases "faults s") (auto simp: reliable_def advance_def)

lemma Do_GET_Inr:
  "Do_GET k s = (Inr v, s') \<Longrightarrow> kv s k = v \<and> s' = advance s \<and> \<not> faulty s"
  by (auto simp: Do_GET_def split: if_splits)

lemma Do_SET_Inr:
  "Do_SET k v s = (Inr u, s') \<Longrightarrow> kv s' = (kv s)(k \<mapsto> v) \<and> \<not> faulty s"
  by (auto simp: Do_SET_def split: if_splits)

lemma Do_DEL_Inr:
  "Do_DEL k s = (Inr n, s') \<Longrightarrow> kv s' = (kv s)(k := None) \<and> \<not> faulty s"
  by (auto simp: Do_DEL_def split: if_splits)

section \<open>The table codec\<close>

lemma rlookup_map_of:
  "distinct (map snd t) \<Longrightarrow> map_of t v = Some b \<Longrightarrow> rlookup t b = Some v"
proof (induction t)
  case Nil
  then show ?case by simp
next
  case (Cons p t)
  obtain v' b' where p: "p = (v', b')" by (cases p)
  show ?case
  proof (cases "v' = v")
    case True
    with Cons.prems p show ?thesis by simp
  next
    case False
    with Cons.prems p have m: "map_of t v = Some b" by simp
    then have "b \<in> snd ` set t" by (metis map_of_SomeD image_eqI snd_conv)
    with Cons.prems p have "b' \<noteq> b" by auto
    with Cons.IH Cons.prems m p show ?thesis by simp
  qed
qed

lemma table_codec_access_roundtrip:
  "distinct (map snd t) \<Longrightarrow> access_roundtrip (table_codec t)"
  by (auto simp: access_roundtrip_def table_codec_def dest: rlookup_map_of)

lemma table_codec_client_roundtrip:
  "distinct (map snd t) \<Longrightarrow> client_roundtrip (table_codec t)"
  by (auto simp: client_roundtrip_def table_codec_def dest: rlookup_map_of)

lemma codec0_access_roundtrip: "access_roundtrip codec0"
  unfolding codec0_def by (rule table_codec_access_roundtrip) simp

lemma codec0_client_roundtrip: "client_roundtrip codec0"
  unfolding codec0_def by (rule table_codec_client_roundtrip) simp

lemmas example_defs =
  codec0_def table_codec_def engine0_def store0_def access0_def access1_def auth1_def auth2_def
  other1_def client1_def client1'_def makeKey_def faulty_def advance_def

section \<open>What a successful operation has done\<close>

lemma CreateClient_Inr:
  "CreateClient cd st c s = (Inr u, s') \<Longrightarrow>
     \<exists>payload. gobEncode cd (VClient c) = Some payload \<and>
       kv s' = (kv s)(makeKey st ''client'' (GetId c) \<mapsto> payload)"
  by (auto simp: CreateClient_def encode_def split: option.splits sum.splits prod.splits
      dest!: Do_SET_Inr)

lemma GetClient_present:
  "kv s (makeKey st ''client'' ident) = Some b \<Longrightarrow> \<not> faulty s \<Longrightarrow>
     GetClient cd st ident s =
       (case gobDecodeClient cd b of None \<Rightarrow> Inl DecodeError | Some c \<Rightarrow> Inr (DefaultClient c),
        advance s)"
  by (simp add: GetClient_def Do_GET_def redis_Bytes_def decodeClient_def split: option.splits)

lemma SaveAccess_Inr:
  assumes "SaveAccess cd st accessID data s = (Inr u, s')"
  shows "\<exists>payload. gobEncode cd (VAccess data) = Some payload \<and>
           kv s' = (kv s)(makeKey st ''access'' accessID \<mapsto> payload,
                          makeKey st ''access_token'' (AccessToken data) \<mapsto> accessID,
                          makeKey st ''refresh_token'' (RefreshToken data) \<mapsto> accessID)"
  using assms
  by (auto simp: SaveAccess_def encode_def split: option.splits sum.splits prod.splits
      dest!: Do_SET_Inr)

lemma loadAccessImpl_Inr:
  assumes "loadAccessImpl cd st key s = (Inr a, s')"
  shows "\<exists>accessID b. kv s key = Some accessID \<and> kv s (makeKey st ''access'' accessID) = Some b \<and>
           gobDecodeAccess cd b = Some a \<and> s' = advance (advance s)"
  using assms
  by (auto simp: loadAccessImpl_def redis_String_def redis_Bytes_def decodeAccess_def
      split: option.splits sum.splits prod.splits dest!: Do_GET_Inr)

lemma removeAccessImpl_Inr:
  assumes "removeAccessImpl cd st key s = (Inr u, s')"
  shows "\<exists>accessID b a. kv s key = Some accessID \<and> kv s (makeKey st ''access'' accessID) = Some b \<and>
           gobDecodeAccess cd b = Some a \<and>
           kv s' = (kv s)(makeKey st ''access'' accessID := None,
                          makeKey st ''access_token'' (AccessToken a) := None,
                          makeKey st ''refresh_token'' (RefreshToken a) := None)"
  using assms
  by (auto simp: removeAccessImpl_def redis_String_def
      split: option.splits sum.splits prod.splits dest!: Do_GET_Inr Do_DEL_Inr loadAccessImpl_Inr)

lemma removeAccessImpl_absent:
  "kv s key = None \<Longrightarrow>
     fst (removeAccessImpl cd st key s) = Inl (if faulty s then BackendError else ErrNil) \<and>
     kv (snd (removeAccessImpl cd st key s)) = kv s"
  by (simp add: removeAccessImpl_def Do_GET_def redis_String_def)

section \<open>Saving an access record\<close>

text \<open>
  C1, as stated, fails: SaveAccess has no test of \<open>data.RefreshToken\<close>. Saving a record
  whose refresh token is empty writes a third entry, the pointer under the key
  \<open>p:refresh_token:\<close> (the refresh-token namespace with the empty identifier).
\<close>

theorem SaveAccess_empty_refresh_counterexample:
  "RefreshToken access0 = [] \<and>
   fst (SaveAccess codec0 store0 ''id0'' access0 engine0) = Inr () \<and>
   kv (snd (SaveAccess codec0 store0 ''id0'' access0 engine0)) ''p:refresh_token:'' = Some ''id0''"
  by (simp add: SaveAccess_def encode_def Do_SET_def example_defs)

text \<open>
  C1, amended: every SaveAccess that returns without error has written three entries,
  whatever the refresh token is: the encoded record under \<open>access:<accessID>\<close>, and
  the access ID under \<open>access_token:<AccessToken>\<close> and under
  \<open>refresh_token:<RefreshToken>\<close>.
\<close>

theorem SaveAccess_writes_three:
  assumes "encode cd (VAccess data) = Inr payload"
    and "SaveAccess cd st accessID data s = (Inr u, s')"
  shows "kv s' = (kv s)(makeKey st ''access'' accessID \<mapsto> payload,
                        makeKey st ''access_token'' (AccessToken data) \<mapsto> accessID,
                        makeKey st ''refresh_token'' (RefreshToken data) \<mapsto> accessID)"
  using SaveAccess_Inr [OF assms(2)] assms(1)
  by (auto simp: encode_def split: option.splits)

theorem SaveAccess_writes_three_witness:
  "encode codec0 (VAccess access0) = Inr ''gob-a0'' \<and>
   SaveAccess codec0 store0 ''id0'' access0 engine0
     = (Inr (), snd (SaveAccess codec0 store0 ''id0'' access0 engine0)) \<and>
   kv (snd (SaveAccess codec0 store0 ''id0'' access0 engine0))
     = (kv engine0)(''p:access:id0'' \<mapsto> ''gob-a0'', ''p:access_token:at0'' \<mapsto> ''id0'',
                    ''p:refresh_token:'' \<mapsto> ''id0'')"
proof -
  have e: "encode codec0 (VAccess access0) = Inr ''gob-a0''"
    by (simp add: encode_def example_defs)
  have r: "SaveAccess codec0 store0 ''id0'' access0 engine0
             = (Inr (), snd (SaveAccess codec0 store0 ''id0'' access0 engine0))"
    by (simp add: SaveAccess_def encode_def Do_SET_def example_defs)
  from SaveAccess_writes_three [OF e r] e r show ?thesis
    by (simp add: makeKey_def store0_def access0_def)
qed

section \<open>Clients\<close>

text \<open>
  C4, as stated, fails for a client that is not a \<open>*osin.DefaultClient\<close>. CreateClient
  hands whatever client it is given to the encoder, and GetClient decodes the stored bytes
  into an \<open>osin.DefaultClient\<close>. The encoder writes a value of another type under that
  type's own exported fields, which the decoder cannot read into a DefaultClient: the
  creation succeeds, and GetClient of the same id returns a decoding error, not a client.
\<close>

theorem GetClient_other_counterexample:
  "fst (CreateClient codec0 store0 other1 engine0) = Inr () \<and>
   kv (snd (CreateClient codec0 store0 other1 engine0)) (makeKey store0 ''client'' (GetId other1))
     = Some ''gob-o1'' \<and>
   fst (GetClient codec0 store0 (GetId other1) (snd (CreateClient codec0 store0 other1 engine0)))
     = Inl DecodeError"
  by (simp add: CreateClient_def GetClient_def encode_def decodeClient_def redis_Bytes_def
      Do_SET_def Do_GET_def example_defs)

text \<open>
  C4, amended: for a default client \<open>c\<close> and a codec that decodes what it encoded, after
  CreateClient has succeeded, GetClient of the client's id returns \<open>c\<close>, field for field
  (when the round trip of the GET does not fail).
\<close>

theorem client_roundtrip_default:
  assumes "client_roundtrip cd"
    and "CreateClient cd st (DefaultClient c) s = (Inr u, s1)"
    and "\<not> faulty s1"
  shows "fst (GetClient cd st (Id c) s1) = Inr (DefaultClient c)"
proof -
  from CreateClient_Inr [OF assms(2)] obtain payload where
    enc: "gobEncode cd (VClient (DefaultClient c)) = Some payload" and
    kv1: "kv s1 (makeKey st ''client'' (Id c)) = Some payload"
    by auto
  from assms(1) enc have "gobDecodeClient cd payload = Some c"
    by (simp add: client_roundtrip_def)
  with GetClient_present [OF kv1 assms(3), of cd] show ?thesis by simp
qed

theorem client_roundtrip_default_witness:
  "client_roundtrip codec0 \<and>
   CreateClient codec0 store0 (DefaultClient client1) engine0
     = (Inr (), snd (CreateClient codec0 store0 (DefaultClient client1) engine0)) \<and>
   \<not> faulty (snd (CreateClient codec0 store0 (DefaultClient client1) engine0)) \<and>
   fst (GetClient codec0 store0 ''c1'' (snd (CreateClient codec0 store0 (DefaultClient client1) engine0)))
     = Inr (DefaultClient client1)"
proof -
  have r: "CreateClient codec0 store0 (DefaultClient client1) engine0
             = (Inr (), snd (CreateClient codec0 store0 (DefaultClient client1) engine0))"
    by (simp add: CreateClient_def encode_def Do_SET_def example_defs)
  have f: "\<not> faulty (snd (CreateClient codec0 store0 (DefaultClient client1) engine0))"
    by (simp add: CreateClient_def encode_def Do_SET_def example_defs)
  from client_roundtrip_default [OF codec0_client_roundtrip r f] r f codec0_client_roundtrip
  show ?thesis by (simp add: client1_def)
qed

section \<open>Authorization codes: absent keys and failed encoding\<close>

text \<open>
  C7: when the key of a code is absent from the engine, LoadAuthorize returns an error,
  never a record: the error \<open>token is expired\<close> when the engine answers, the engine's
  own error when the round trip fails.
\<close>

theorem LoadAuthorize_absent:
  "kv s (makeKey st ''auth'' code) = None \<Longrightarrow>
     fst (LoadAuthorize cd st code s) = Inl (if faulty s then BackendError else Expired)"
  by (simp add: LoadAuthorize_def Do_GET_def)

theorem LoadAuthorize_absent_witness:
  "kv engine0 (makeKey store0 ''auth'' ''code1'') = None \<and>
   fst (LoadAuthorize codec0 store0 ''code1'' engine0) = Inl Expired"
  using LoadAuthorize_absent [of engine0 store0 "''code1''" codec0]
  by (simp add: engine0_def faulty_def)

text \<open>
  C8: when the record cannot be encoded, SaveAuthorize returns the encoding error and the
  engine is exactly as before: nothing was sent to it.
\<close>

theorem SaveAuthorize_encode_failure:
  "gobEncode cd (VAuthorize data) = None \<Longrightarrow>
     SaveAuthorize cd st data s = (Inl EncodeError, s)"
  by (simp add: SaveAuthorize_def encode_def)

theorem SaveAuthorize_encode_failure_witness:
  "gobEncode codec0 (VAuthorize auth1) = None \<and>
   SaveAuthorize codec0 store0 auth1 engine0 = (Inl EncodeError, engine0)"
proof -
  have e: "gobEncode codec0 (VAuthorize auth1) = None"
    by (simp add: codec0_def table_codec_def)
  from SaveAuthorize_encode_failure [OF e] e show ?thesis by simp
qed

text \<open>
  An authorization code whose \<open>ExpiresIn\<close> is not positive is not stored: the engine
  refuses the SETEX and SaveAuthorize returns that error.
\<close>

lemma SaveAuthorize_invalid_expire:
  assumes "gobEncode cd (VAuthorize data) = Some payload"
    and "\<not> faulty s" and "sint (authorize_data.ExpiresIn data) \<le> 0"
  shows "fst (SaveAuthorize cd st data s) = Inl InvalidExpire"
    and "kv (snd (SaveAuthorize cd st data s)) = kv s"
  using assms by (simp_all add: SaveAuthorize_def encode_def Do_SETEX_def)

section \<open>Deleting\<close>

text \<open>
  C9: DeleteClient and RemoveAuthorize return an error only when the round trip to the
  engine itself fails, whether the key is there or not: deleting an absent key is a
  success, never \<open>redis.ErrNil\<close>. On an engine whose round trips do not fail, each of
  them succeeds, leaves its key absent, and succeeds again on the engine it left.
\<close>

theorem delete_idempotent:
  "fst (DeleteClient st c s) = (if faulty s then Inl BackendError else Inr ()) \<and>
   fst (RemoveAuthorize st code s) = (if faulty s then Inl BackendError else Inr ()) \<and>
   (reliable s \<longrightarrow>
      fst (DeleteClient st c s) = Inr () \<and>
      kv (snd (DeleteClient st c s)) (makeKey st ''client'' (GetId c)) = None \<and>
      fst (DeleteClient st c (snd (DeleteClient st c s))) = Inr () \<and>
      fst (RemoveAuthorize st code s) = Inr () \<and>
      kv (snd (RemoveAuthorize st code s)) (makeKey st ''auth'' code) = None \<and>
      fst (RemoveAuthorize st code (snd (RemoveAuthorize st code s))) = Inr ())"
proof -
  have g: "fst (DeleteClient st c s) = (if faulty s then Inl BackendError else Inr ())"
    "fst (RemoveAuthorize st code s) = (if faulty s then Inl BackendError else Inr ())"
    by (simp_all add: DeleteClient_def RemoveAuthorize_def Do_DEL_def)
  have "reliable s \<longrightarrow>
      fst (DeleteClient st c s) = Inr () \<and>
      kv (snd (DeleteClient st c s)) (makeKey st ''client'' (GetId c)) = None \<and>
      fst (DeleteClient st c (snd (DeleteClient st c s))) = Inr () \<and>
      fst (RemoveAuthorize st code s) = Inr () \<and>
      kv (snd (RemoveAuthorize st code s)) (makeKey st ''auth'' code) = None \<and>
      fst (RemoveAuthorize st code (snd (RemoveAuthorize st code s))) = Inr ()"
  proof
    assume r: "reliable s"
    then have a: "\<not> faulty s" and b: "\<not> faulty (advance s)"
      by (simp_all add: reliable_not_faulty reliable_advance)
    from a b show "fst (DeleteClient st c s) = Inr () \<and>
      kv (snd (DeleteClient st c s)) (makeKey st ''client'' (GetId c)) = None \<and>
      fst (DeleteClient st c (snd (DeleteClient st c s))) = Inr () \<and>
      fst (RemoveAuthorize st code s) = Inr () \<and>
      kv (snd (RemoveAuthorize st code s)) (makeKey st ''auth'' code) = None \<and>
      fst (RemoveAuthorize st code (snd (RemoveAuthorize st code s))) = Inr ()"
      by (simp add: DeleteClient_def RemoveAuthorize_def Do_DEL_def faulty_def advance_def)
  qed
  with g show ?thesis by blast
qed

theorem delete_idempotent_witness:
  "reliable engine1 \<and>
   kv engine1 (makeKey store0 ''client'' (GetId (DefaultClient client1))) = Some ''gob-c1'' \<and>
   fst (DeleteClient store0 (DefaultClient client1) engine1) = Inr () \<and>
   kv (snd (DeleteClient store0 (DefaultClient client1) engine1))
      (makeKey store0 ''client'' (GetId (DefaultClient client1))) = None \<and>
   fst (DeleteClient store0 (DefaultClient client1)
          (snd (DeleteClient store0 (DefaultClient client1) engine1))) = Inr () \<and>
   fst (RemoveAuthorize store0 ''code1'' engine1) = Inr () \<and>
   fst (RemoveAuthorize store0 ''code1'' (snd (RemoveAuthorize store0 ''code1'' engine1))) = Inr ()"
proof -
  have k: "kv engine1 = [''p:client:c1'' \<mapsto> ''gob-c1'']" and f: "faults engine1 = []"
    by (simp_all add: engine1_def CreateClient_def encode_def Do_SET_def example_defs)
  from f have r: "reliable engine1" by (simp add: reliable_def)
  from delete_idempotent [of store0 "DefaultClient client1" engine1 "''code1''"] r k
  show ?thesis by (simp add: makeKey_def store0_def client1_def reliable_not_faulty)
qed

text \<open>
  C10: when the pointer key of a token is absent, RemoveAccess and RemoveRefresh return an
  error (\<open>redis.ErrNil\<close> when the engine answers) and leave every key as it was.
\<close>

theorem remove_by_token_absent:
  "(kv s (makeKey st ''access_token'' token) = None \<longrightarrow>
      fst (RemoveAccess cd st token s) = Inl (if faulty s then BackendError else ErrNil) \<and>
      kv (snd (RemoveAccess cd st token s)) = kv s) \<and>
   (kv s (makeKey st ''refresh_token'' token) = None \<longrightarrow>
      fst (RemoveRefresh cd st token s) = Inl (if faulty s then BackendError else ErrNil) \<and>
      kv (snd (RemoveRefresh cd st token s)) = kv s)"
  by (simp add: RemoveAccess_def RemoveRefresh_def removeAccessImpl_absent)

theorem remove_by_token_absent_witness:
  "kv engine0 (makeKey store0 ''access_token'' ''at1'') = None \<and>
   kv engine0 (makeKey store0 ''refresh_token'' ''at1'') = None \<and>
   fst (RemoveAccess codec0 store0 ''at1'' engine0) = Inl ErrNil \<and>
   kv (snd (RemoveAccess codec0 store0 ''at1'' engine0)) = kv engine0 \<and>
   fst (RemoveRefresh codec0 store0 ''at1'' engine0) = Inl ErrNil \<and>
   kv (snd (RemoveRefresh codec0 store0 ''at1'' engine0)) = kv engine0"
  using remove_by_token_absent [of engine0 store0 "''at1''" codec0]
  by (simp add: engine0_def faulty_def)

section \<open>Loading and hydrating\<close>



lemma registry_advance [simp]: "registry cd st (advance s) = registry cd st s"
  by (rule ext) (simp add: registry_def)



lemma clients_present_advance [simp]:
  "clients_present cd st (advance s) a = clients_present cd st s a"
  by (simp add: clients_present_def authorize_client_present_def cong: option.case_cong)


lemma loadAndRefreshAccess_absent:
  "kv s key = None \<Longrightarrow>
     fst (loadAndRefreshAccess cd st key s) = Inl (if faulty s then BackendError else ErrNil)"
  by (simp add: loadAndRefreshAccess_def loadAccessImpl_def Do_GET_def redis_String_def)

lemma saved_entries:
  assumes "access_roundtrip cd" and "SaveAccess cd st accessID a s = (Inr u, s1)"
  shows "\<exists>b. kv s1 (makeKey st ''access'' accessID) = Some b \<and> gobDecodeAccess cd b = Some a \<and>
           kv s1 (makeKey st ''access_token'' (AccessToken a)) = Some accessID \<and>
           kv s1 (makeKey st ''refresh_token'' (RefreshToken a)) = Some accessID"
proof -
  from SaveAccess_Inr [OF assms(2)] obtain payload where
    enc: "gobEncode cd (VAccess a) = Some payload" and
    kv1: "kv s1 = (kv s)(makeKey st ''access'' accessID \<mapsto> payload,
                        makeKey st ''access_token'' (AccessToken a) \<mapsto> accessID,
                        makeKey st ''refresh_token'' (RefreshToken a) \<mapsto> accessID)"
    by auto
  from assms(1) enc have "gobDecodeAccess cd payload = Some a"
    by (simp add: access_roundtrip_def)
  with kv1 show ?thesis by (simp add: makeKey_eq)
qed


section \<open>The example engines, evaluated\<close>

lemma engine1_eval:
  "kv engine1 = [''p:client:c1'' \<mapsto> ''gob-c1'']" "faults engine1 = []"
  by (simp_all add: engine1_def CreateClient_def encode_def Do_SET_def example_defs)

lemma save_eval:
  "SaveAccess codec0 store0 ''id1'' access1 engine1 = (Inr (), engine2)"
  by (simp add: engine2_def engine1_def SaveAccess_def CreateClient_def encode_def Do_SET_def
      example_defs)

lemma engine2_eval:
  "kv engine2 = [''p:client:c1'' \<mapsto> ''gob-c1'', ''p:access:id1'' \<mapsto> ''gob-a1'',
                 ''p:access_token:at1'' \<mapsto> ''id1'', ''p:refresh_token:rt1'' \<mapsto> ''id1'']"
  "faults engine2 = []"
  by (simp_all add: engine2_def engine1_def SaveAccess_def CreateClient_def encode_def Do_SET_def
      example_defs)



lemma remove_eval:
  "RemoveAccess codec0 store0 ''at1'' engine2 = (Inr (), engine4)"
  by (simp add: engine4_def RemoveAccess_def removeAccessImpl_def loadAccessImpl_def
      Do_GET_def Do_DEL_def redis_String_def redis_Bytes_def decodeAccess_def
      faulty_def engine2_eval codec0_def table_codec_def makeKey_def store0_def
      access0_def access1_def auth2_def client1_def client1'_def other1_def)

lemma engine4_eval:
  "kv engine4 = [''p:client:c1'' \<mapsto> ''gob-c1'']" "faults engine4 = []"
  by (simp_all add: engine4_def RemoveAccess_def removeAccessImpl_def loadAccessImpl_def
      Do_GET_def Do_DEL_def redis_String_def redis_Bytes_def decodeAccess_def
      faulty_def advance_def engine2_eval codec0_def table_codec_def makeKey_def store0_def
      access0_def access1_def auth2_def client1_def client1'_def other1_def fun_upd_twist)








section \<open>Cascade delete\<close>

text \<open>
  C2: with a codec that decodes what it encoded, after a SaveAccess of \<open>A\<close> that
  succeeded and a RemoveAccess of \<open>A\<close>'s access token that succeeded, the three
  entries are gone: the record under the access ID and both pointers. LoadAccess of the
  access token and LoadRefresh of the refresh token then fail, with \<open>redis.ErrNil\<close>
  (not found) when the engine answers and with the engine's error when the round trip fails.
\<close>

theorem cascade_delete:
  assumes "access_roundtrip cd"
    and "SaveAccess cd st accessID A s = (Inr u, s1)"
    and "RemoveAccess cd st (AccessToken A) s1 = (Inr u', s2)"
  shows "kv s2 (makeKey st ''access'' accessID) = None \<and>
         kv s2 (makeKey st ''access_token'' (AccessToken A)) = None \<and>
         kv s2 (makeKey st ''refresh_token'' (RefreshToken A)) = None \<and>
         fst (LoadAccess cd st (AccessToken A) s2)
           = Inl (if faulty s2 then BackendError else ErrNil) \<and>
         fst (LoadRefresh cd st (RefreshToken A) s2)
           = Inl (if faulty s2 then BackendError else ErrNil)"
proof -
  from saved_entries [OF assms(1,2)] obtain b where
    k1: "kv s1 (makeKey st ''access'' accessID) = Some b" and
    dec: "gobDecodeAccess cd b = Some A" and
    k2: "kv s1 (makeKey st ''access_token'' (AccessToken A)) = Some accessID"
    by auto
  from assms(3) have "removeAccessImpl cd st (makeKey st ''access_token'' (AccessToken A)) s1
      = (Inr u', s2)"
    by (simp add: RemoveAccess_def)
  from removeAccessImpl_Inr [OF this] k1 k2 dec
  have kv2: "kv s2 = (kv s1)(makeKey st ''access'' accessID := None,
                           makeKey st ''access_token'' (AccessToken A) := None,
                           makeKey st ''refresh_token'' (RefreshToken A) := None)"
    by auto
  have a: "kv s2 (makeKey st ''access'' accessID) = None"
    and b: "kv s2 (makeKey st ''access_token'' (AccessToken A)) = None"
    and c: "kv s2 (makeKey st ''refresh_token'' (RefreshToken A)) = None"
    using kv2 by (simp_all add: makeKey_eq)
  from a b c show ?thesis
    by (simp add: LoadAccess_def LoadRefresh_def loadAndRefreshAccess_absent)
qed

theorem cascade_delete_witness:
  "access_roundtrip codec0 \<and>
   SaveAccess codec0 store0 ''id1'' access1 engine1 = (Inr (), engine2) \<and>
   RemoveAccess codec0 store0 (AccessToken access1) engine2 = (Inr (), engine4) \<and>
   kv engine4 ''p:access:id1'' = None \<and>
   kv engine4 ''p:access_token:at1'' = None \<and>
   kv engine4 ''p:refresh_token:rt1'' = None \<and>
   fst (LoadAccess codec0 store0 ''at1'' engine4) = Inl ErrNil \<and>
   fst (LoadRefresh codec0 store0 ''rt1'' engine4) = Inl ErrNil"
proof -
  have r: "RemoveAccess codec0 store0 (AccessToken access1) engine2 = (Inr (), engine4)"
    using remove_eval by (simp add: access1_def)
  from cascade_delete [OF codec0_access_roundtrip save_eval r]
    codec0_access_roundtrip save_eval r
  show ?thesis
    by (simp add: access1_def makeKey_def store0_def faulty_def engine4_eval)
qed

section \<open>Dual-index convergence\<close>




section \<open>Hydration propagation\<close>



end
